theory Spec2Isabelle
  imports Main
begin

section \<open>The AUSF operator charm: data model\<close>

text \<open>
  The charm (\<^verbatim>\<open>src/charm.py\<close>) has one event handler, \<^verbatim>\<open>_on_ausf_pebble_ready\<close>,
  observed on three events. It reads the Juju model, the NRF requirer library, the
  workload container (Pebble) and the \<^verbatim>\<open>unit-get\<close> hook tool, and it writes the
  unit status, the container's files and the container's Pebble plan.

  What the handler reads and cannot change during one pass is the record \<open>env\<close>.
  What it changes is the record \<open>state\<close>: the unit status, the files of the
  container, and the list of calls made to the collaborators, in the order of the
  source. An exception is a value of \<open>py_error\<close>; the handler returns
  \<open>Inl\<close> of it together with the state reached when it was raised.

  The exceptions modelled are those of the relation lookup, of the template lookup, of
  the push of the file and of the address query of \<^verbatim>\<open>_pod_ip\<close>. The other calls on
  the container (\<^verbatim>\<open>exists\<close>, \<^verbatim>\<open>add_layer\<close>, \<^verbatim>\<open>replan\<close>) are made only after
  \<^verbatim>\<open>can_connect()\<close> has answered true and are taken to succeed; the logging calls
  are left out.

  \<open>unit_status\<close> has the status classes of the framework; the charm assigns the first
  three, a unit starts with one of the others.
\<close>

datatype unit_status =
    ActiveStatus string
  | BlockedStatus string
  | WaitingStatus string
  | MaintenanceStatus string
  | UnknownStatus

datatype py_error =
    CalledProcessError
  | FileNotFoundError
  | UnicodeDecodeError
  | AddressValueError
  | TemplateNotFound
  | PathError
  | TooManyRelatedAppsError

record service =
  override :: string
  startup :: string
  command :: string
  environment :: "(string \<times> string) list"

record layer =
  summary :: string
  description :: string
  services :: "(string \<times> service) list"

text \<open>
  One constructor per call the source makes to a collaborator:
  \<^verbatim>\<open>model.get_relation(name)\<close>, \<^verbatim>\<open>container.can_connect()\<close>,
  \<^verbatim>\<open>nrf_requires.get_nrf_url()\<close>, \<^verbatim>\<open>container.exists(path)\<close>,
  \<^verbatim>\<open>environment.get_template(name)\<close>, \<^verbatim>\<open>container.push(path, source)\<close>,
  \<^verbatim>\<open>check_output(argv)\<close>, \<^verbatim>\<open>container.add_layer(label, layer, combine)\<close>,
  \<^verbatim>\<open>container.replan()\<close> and \<^verbatim>\<open>event.defer()\<close>.
\<close>

datatype call =
    Get_relation string
  | Can_connect
  | Get_nrf_url
  | Exists string
  | Get_template string
  | Push string string
  | Check_output "string list"
  | Add_layer string layer bool
  | Replan
  | Defer

text \<open>
  \<open>get_relation\<close> is the outcome of \<^verbatim>\<open>model.get_relation(name)\<close>: the relation id
  of the endpoint if one relation is established, \<^verbatim>\<open>None\<close> if none is, and the
  exception \<^verbatim>\<open>TooManyRelatedAppsError\<close> if several are;
  \<open>get_nrf_url\<close> is what the requirer library resolves (\<^verbatim>\<open>Optional[str]\<close>);
  \<open>push_outcome\<close> is the outcome of \<^verbatim>\<open>container.push\<close> of the configuration file,
  called without \<^verbatim>\<open>make_dirs\<close>: the exception (\<^verbatim>\<open>PathError\<close> when the directory
  \<^verbatim>\<open>/etc/ausf\<close> is missing in the container) or success;
  \<open>unit_get_private_address\<close> is the outcome of
  \<^verbatim>\<open>str(IPv4Address(check_output(["unit-get", "private-address"]).decode().strip()))\<close>:
  the exception when the hook tool, the decoding or the address parser raises, the text
  of the address otherwise.
\<close>

record env =
  get_relation :: "string \<Rightarrow> py_error + nat option"
  can_connect :: bool
  get_nrf_url :: "string option"
  app_name :: string
  model_name :: string
  push_outcome :: "py_error + unit"
  unit_get_private_address :: "py_error + string"

record state =
  status :: unit_status
  files :: "string \<rightharpoonup> string"
  calls :: "call list"

definition called :: "call \<Rightarrow> state \<Rightarrow> state" where
  "called c s = s\<lparr>calls := calls s @ [c]\<rparr>"

section \<open>Constants and the configuration template\<close>

definition BASE_CONFIG_PATH :: string where
  "BASE_CONFIG_PATH = ''/etc/ausf''"

definition CONFIG_FILE_NAME :: string where
  "CONFIG_FILE_NAME = ''ausfcfg.conf''"

definition config_file_path :: string where
  "config_file_path = BASE_CONFIG_PATH @ ''/'' @ CONFIG_FILE_NAME"

text \<open>
  A template is a list of literal pieces and variables. Rendering replaces a variable by
  the text of its value in the context: a string by itself, Python's \<^verbatim>\<open>None\<close> by
  \<^verbatim>\<open>None\<close>, and a variable the context does not define by nothing (no autoescaping
  is configured in the source).
\<close>

datatype piece = Lit string | Var string

definition py_str :: "string option \<Rightarrow> string" where
  "py_str v = (case v of None \<Rightarrow> ''None'' | Some s \<Rightarrow> s)"

fun render_piece :: "(string \<times> string option) list \<Rightarrow> piece \<Rightarrow> string" where
  "render_piece ctx (Lit s) = s"
| "render_piece ctx (Var v) = (case map_of ctx v of None \<Rightarrow> [] | Some x \<Rightarrow> py_str x)"

definition render :: "piece list \<Rightarrow> (string \<times> string option) list \<Rightarrow> string" where
  "render template ctx = concat (map (render_piece ctx) template)"

text \<open>
  Modelled from the spec: the template file \<^verbatim>\<open>src/templates/ausfcfg.conf.j2\<close> that
  \<^verbatim>\<open>_write_config_file\<close> loads is not among the sources. Its text
  (\<open>ausfcfg_conf_j2\<close>, with the logger block built from \<open>logger_names\<close> and
  \<open>logger_entry\<close>) follows the schema of section 6 of the specification: group id,
  \<^verbatim>\<open>nrfUri\<close>, one PLMN entry, the \<^verbatim>\<open>sbi\<close> block with \<^verbatim>\<open>registerIPv4\<close>, the
  service name list, \<^verbatim>\<open>info\<close>, and one logger entry per subsystem. It is laid out as
  the unit test
  \<^verbatim>\<open>test_given_nrf_is_available_when_databases_are_created_then_config_file_is_written\<close>
  expects the pushed file, with the two variables the source passes to
  \<^verbatim>\<open>template.render\<close>.
\<close>

definition logger_names :: "string list" where
  "logger_names =
     [''AMF'', ''AUSF'', ''Aper'', ''CommonConsumerTest'', ''FSM'', ''MongoDBLibrary'',
      ''N3IWF'', ''NAS'', ''NGAP'', ''NRF'', ''NamfComm'', ''NamfEventExposure'',
      ''NsmfPDUSession'', ''NudrDataRepository'', ''OpenApi'', ''PCF'', ''PFCP'',
      ''PathUtil'', ''SMF'', ''UDM'', ''UDR'', ''WEBUI'']"

definition logger_entry :: "string \<Rightarrow> string" where
  "logger_entry name =
     ''\<newline>  '' @ name @ '':\<newline>    ReportCaller: false\<newline>    debugLevel: info''"

definition ausfcfg_conf_j2 :: "piece list" where
  "ausfcfg_conf_j2 =
     [Lit ''configuration:\<newline>  groupId: ausfGroup001\<newline>  nrfUri: '',
      Var ''nrf_url'',
      Lit (''\<newline>  plmnSupportList:\<newline>  - mcc: \"208\"\<newline>    mnc: \"93\"'' @
           ''\<newline>  sbi:\<newline>    bindingIPv4: 0.0.0.0\<newline>    port: 29509'' @
           ''\<newline>    registerIPv4: ''),
      Var ''ausf_url'',
      Lit (''\<newline>    scheme: http\<newline>  serviceNameList:\<newline>  - nausf-auth'' @
           ''\<newline>info:\<newline>  description: AUSF initial local configuration'' @
           ''\<newline>  version: 1.0.0\<newline>logger:'' @
           concat (map logger_entry logger_names))]"

text \<open>
  \<^verbatim>\<open>get_template\<close> of the environment loaded from \<^verbatim>\<open>src/templates/\<close>: the one
  template there, and \<^verbatim>\<open>TemplateNotFound\<close> for any other name.
\<close>

definition get_template :: "string \<Rightarrow> py_error + piece list" where
  "get_template name =
     (if name = ''ausfcfg.conf.j2'' then Inr ausfcfg_conf_j2 else Inl TemplateNotFound)"

section \<open>The charm\<close>

definition ausf_hostname :: "env \<Rightarrow> string" where
  "ausf_hostname e = app_name e @ ''.'' @ model_name e @ ''.svc.cluster.local''"

text \<open>
  \<^verbatim>\<open>_write_config_file\<close>: render the template, push the content. A push that raises
  stores nothing.
\<close>

definition write_config_file ::
  "env \<Rightarrow> string option \<Rightarrow> state \<Rightarrow> (py_error + unit) \<times> state" where
  "write_config_file e nrf_url s =
     (let s1 = called (Get_template ''ausfcfg.conf.j2'') s
      in case get_template ''ausfcfg.conf.j2'' of
           Inl err \<Rightarrow> (Inl err, s1)
         | Inr template \<Rightarrow>
             (let content = render template
                              [(''nrf_url'', nrf_url), (''ausf_url'', Some (ausf_hostname e))];
                  s2 = called (Push config_file_path content) s1
              in case push_outcome e of
                   Inl err \<Rightarrow> (Inl err, s2)
                 | Inr u \<Rightarrow>
                     (Inr (), s2\<lparr>files := (files s2)(config_file_path \<mapsto> content)\<rparr>)))"

text \<open>Python's truth value of an \<^verbatim>\<open>Optional[str]\<close>: false for \<^verbatim>\<open>None\<close> and for the empty string.\<close>

definition truthy :: "string option \<Rightarrow> bool" where
  "truthy v = (case v of None \<Rightarrow> False | Some s \<Rightarrow> s \<noteq> [])"

definition nrf_requires_get_nrf_url :: "env \<Rightarrow> state \<Rightarrow> string option \<times> state" where
  "nrf_requires_get_nrf_url e s = (get_nrf_url e, called Get_nrf_url s)"

definition nrf_data_is_available :: "env \<Rightarrow> state \<Rightarrow> bool \<times> state" where
  "nrf_data_is_available e s =
     (let (url, s1) = nrf_requires_get_nrf_url e s
      in if \<not> truthy url then (False, s1) else (True, s1))"

definition config_file_is_written :: "env \<Rightarrow> state \<Rightarrow> bool \<times> state" where
  "config_file_is_written e s =
     (let s1 = called (Exists config_file_path) s
      in if files s config_file_path = None then (False, s1) else (True, s1))"

text \<open>
  \<^verbatim>\<open>_relation_created\<close>: a relation object is true, \<^verbatim>\<open>None\<close> is false, and an
  exception of the lookup is not caught.
\<close>

definition relation_created ::
  "env \<Rightarrow> string \<Rightarrow> state \<Rightarrow> (py_error + bool) \<times> state" where
  "relation_created e relation_name s =
     (let s1 = called (Get_relation relation_name) s
      in case get_relation e relation_name of
           Inl err \<Rightarrow> (Inl err, s1)
         | Inr relation \<Rightarrow> if relation = None then (Inr False, s1) else (Inr True, s1))"

definition nrf_relation_is_created :: "env \<Rightarrow> state \<Rightarrow> (py_error + bool) \<times> state" where
  "nrf_relation_is_created e s = relation_created e ''nrf'' s"

definition container_can_connect :: "env \<Rightarrow> state \<Rightarrow> bool \<times> state" where
  "container_can_connect e s = (can_connect e, called Can_connect s)"

text \<open>\<^verbatim>\<open>_pod_ip\<close>: the hook tool is asked, and whatever it or the parser raises is raised.\<close>

definition pod_ip :: "env \<Rightarrow> state \<Rightarrow> (py_error + string) \<times> state" where
  "pod_ip e s =
     (unit_get_private_address e, called (Check_output [''unit-get'', ''private-address'']) s)"

definition environment_variables ::
  "env \<Rightarrow> state \<Rightarrow> (py_error + (string \<times> string) list) \<times> state" where
  "environment_variables e s =
     (case pod_ip e s of
        (Inl err, s1) \<Rightarrow> (Inl err, s1)
      | (Inr ip, s1) \<Rightarrow>
          (Inr [(''GRPC_GO_LOG_VERBOSITY_LEVEL'', ''99''),
                (''GRPC_GO_LOG_SEVERITY_LEVEL'', ''info''),
                (''GRPC_TRACE'', ''all''),
                (''GRPC_VERBOSITY'', ''debug''),
                (''POD_IP'', ip),
                (''MANAGED_BY_CONFIG_POD'', ''true'')], s1))"

definition pebble_layer :: "env \<Rightarrow> state \<Rightarrow> (py_error + layer) \<times> state" where
  "pebble_layer e s =
     (case environment_variables e s of
        (Inl err, s1) \<Rightarrow> (Inl err, s1)
      | (Inr vars, s1) \<Rightarrow>
          (Inr \<lparr>summary = ''ausf layer'',
                description = ''pebble config layer for ausf'',
                services =
                  [(''ausf'',
                    \<lparr>override = ''replace'',
                     startup = ''enabled'',
                     command = ''/free5gc/ausf/ausf --ausfcfg '' @ BASE_CONFIG_PATH @ ''/''
                               @ CONFIG_FILE_NAME,
                     environment = vars\<rparr>)]\<rparr>, s1))"

text \<open>
  \<^verbatim>\<open>_on_ausf_pebble_ready\<close>. The arguments of \<^verbatim>\<open>add_layer\<close> are evaluated before
  the call, so an exception of \<^verbatim>\<open>_pebble_layer\<close> leaves the handler before any layer
  is added; nothing in the handler catches it, nor an exception of the relation lookup
  or of \<^verbatim>\<open>_write_config_file\<close>. The URL passed to \<^verbatim>\<open>_write_config_file\<close> is
  queried a second time.
\<close>

definition on_ausf_pebble_ready :: "env \<Rightarrow> state \<Rightarrow> (py_error + unit) \<times> state" where
  "on_ausf_pebble_ready e s =
     (case nrf_relation_is_created e s of
        (Inl err, s1) \<Rightarrow> (Inl err, s1)
      | (Inr created, s1) \<Rightarrow>
      if \<not> created then
        (Inr (), s1\<lparr>status := BlockedStatus ''Waiting for NRF relation to be created''\<rparr>)
      else
        let (connected, s2) = container_can_connect e s1 in
        if \<not> connected then
          (Inr (),
           called Defer (s2\<lparr>status := WaitingStatus ''Waiting for container to be ready''\<rparr>))
        else
          let (available, s3) = nrf_data_is_available e s2 in
          if \<not> available then
            (Inr (), s3\<lparr>status := WaitingStatus ''Waiting for NRF data to be available''\<rparr>)
          else
            let (written, s4) = config_file_is_written e s3
            in case (if \<not> written then
                       (let (url, s') = nrf_requires_get_nrf_url e s4
                        in write_config_file e url s')
                     else (Inr (), s4)) of
                 (Inl err, s5) \<Rightarrow> (Inl err, s5)
               | (Inr u, s5) \<Rightarrow>
                   (case pebble_layer e s5 of
                      (Inl err, s6) \<Rightarrow> (Inl err, s6)
                    | (Inr l, s6) \<Rightarrow>
                        (Inr (),
                         (called Replan (called (Add_layer ''ausf'' l True) s6))
                           \<lparr>status := ActiveStatus []\<rparr>)))"

section \<open>What the properties speak about\<close>

text \<open>The calls that change the Pebble plan, and the calls that render or push the file.\<close>

fun plan_call :: "call \<Rightarrow> bool" where
  "plan_call (Add_layer label l combine) = True"
| "plan_call Replan = True"
| "plan_call c = False"

fun config_write_call :: "call \<Rightarrow> bool" where
  "config_write_call (Get_template name) = True"
| "config_write_call (Push path content) = True"
| "config_write_call c = False"

text \<open>Whether the lookup finds an \<^verbatim>\<open>nrf\<close> relation.\<close>

definition nrf_relation_exists :: "env \<Rightarrow> bool" where
  "nrf_relation_exists e =
     (case get_relation e ''nrf'' of
        Inl err \<Rightarrow> False
      | Inr relation \<Rightarrow> relation \<noteq> None)"

text \<open>
  The status table of the specification (section 4.1): the first failing check among
  relation existence, container reachability and dependency data decides, and the status
  is Active when none fails. It follows the specification's words, not the source.
\<close>

definition spec_status :: "bool \<Rightarrow> bool \<Rightarrow> bool \<Rightarrow> unit_status" where
  "spec_status relation_exists connectable url_available =
     (if \<not> relation_exists then BlockedStatus ''Waiting for NRF relation to be created''
      else if \<not> connectable then WaitingStatus ''Waiting for container to be ready''
      else if \<not> url_available then WaitingStatus ''Waiting for NRF data to be available''
      else ActiveStatus [])"

text \<open>
  The situation the unit tests build: application \<^verbatim>\<open>ausf-operator\<close> in model
  \<^verbatim>\<open>whatever\<close>, an \<^verbatim>\<open>nrf\<close> relation whose provider publishes
  \<^verbatim>\<open>http://1.1.1.1\<close>, a reachable container whose push succeeds, and
  \<^verbatim>\<open>unit-get\<close> answering \<^verbatim>\<open>1.1.1.1\<close>; a container without the configuration file,
  and one that has it.
\<close>

definition harness_env :: env where
  "harness_env =
     \<lparr>get_relation = (\<lambda>name. if name = ''nrf'' then Inr (Some 0) else Inr None),
      can_connect = True,
      get_nrf_url = Some ''http://1.1.1.1'',
      app_name = ''ausf-operator'',
      model_name = ''whatever'',
      push_outcome = Inr (),
      unit_get_private_address = Inr ''1.1.1.1''\<rparr>"

definition fresh_state :: state where
  "fresh_state = \<lparr>status = MaintenanceStatus [], files = Map.empty, calls = []\<rparr>"

definition written_state :: state where
  "written_state =
     \<lparr>status = MaintenanceStatus [],
      files = [''/etc/ausf/ausfcfg.conf'' \<mapsto> ''nrfUri: http://9.9.9.9''],
      calls = []\<rparr>"

section \<open>Properties of the handler\<close>

lemmas handler_defs =
  on_ausf_pebble_ready_def nrf_relation_is_created_def relation_created_def
  container_can_connect_def nrf_data_is_available_def nrf_requires_get_nrf_url_def
  config_file_is_written_def write_config_file_def get_template_def pebble_layer_def
  environment_variables_def pod_ip_def called_def Let_def

lemmas path_defs = config_file_path_def BASE_CONFIG_PATH_def CONFIG_FILE_NAME_def

lemmas example_defs = harness_env_def fresh_state_def written_state_def

subsection \<open>The three guards\<close>

text \<open>
  C1. Whenever the \<^verbatim>\<open>nrf\<close> relation does not exist, the handler returns normally
  with status Blocked, reason \<^verbatim>\<open>Waiting for NRF relation to be created\<close>, whatever
  the connectivity, the dependency data and the files are. The relation lookup is the
  only call made: no later check is evaluated, nothing is deferred, no file changes.
\<close>

theorem relation_absent_blocked:
  assumes "get_relation e ''nrf'' = Inr None"
  shows "on_ausf_pebble_ready e s =
     (Inr (), s\<lparr>status := BlockedStatus ''Waiting for NRF relation to be created'',
                calls := calls s @ [Get_relation ''nrf'']\<rparr>)"
  using assms by (simp add: handler_defs)

theorem relation_absent_blocked_witness:
  "get_relation (harness_env\<lparr>get_relation := \<lambda>name. Inr None\<rparr>) ''nrf'' = Inr None
   \<and> fst (on_ausf_pebble_ready (harness_env\<lparr>get_relation := \<lambda>name. Inr None\<rparr>) written_state)
       = Inr ()
   \<and> status (snd (on_ausf_pebble_ready (harness_env\<lparr>get_relation := \<lambda>name. Inr None\<rparr>)
         written_state))
       = BlockedStatus ''Waiting for NRF relation to be created''
   \<and> calls (snd (on_ausf_pebble_ready (harness_env\<lparr>get_relation := \<lambda>name. Inr None\<rparr>)
         written_state))
       = [Get_relation ''nrf'']"
proof -
  have absent: "get_relation (harness_env\<lparr>get_relation := \<lambda>name. Inr None\<rparr>) ''nrf'' = Inr None"
    by simp
  from relation_absent_blocked [OF absent, of written_state] absent
  show ?thesis
    by (simp add: written_state_def)
qed

text \<open>
  C2. Whenever the relation exists and the container cannot be connected to, the handler
  returns normally with status Waiting, reason \<^verbatim>\<open>Waiting for container to be ready\<close>.
  It calls the relation lookup, the connectivity check and \<^verbatim>\<open>event.defer()\<close>, in this
  order and nothing else: the event is deferred exactly once, and the dependency data,
  the file and the layer are not touched.
\<close>

theorem container_unreachable_deferred:
  assumes "get_relation e ''nrf'' = Inr (Some r)" and "\<not> can_connect e"
  shows "on_ausf_pebble_ready e s =
      (Inr (), s\<lparr>status := WaitingStatus ''Waiting for container to be ready'',
                 calls := calls s @ [Get_relation ''nrf'', Can_connect, Defer]\<rparr>)
    \<and> count_list (calls (snd (on_ausf_pebble_ready e s))) Defer
        = Suc (count_list (calls s) Defer)"
  using assms by (simp add: handler_defs)

theorem container_unreachable_deferred_witness:
  "get_relation (harness_env\<lparr>can_connect := False\<rparr>) ''nrf'' = Inr (Some 0)
   \<and> \<not> can_connect (harness_env\<lparr>can_connect := False\<rparr>)
   \<and> fst (on_ausf_pebble_ready (harness_env\<lparr>can_connect := False\<rparr>) fresh_state) = Inr ()
   \<and> status (snd (on_ausf_pebble_ready (harness_env\<lparr>can_connect := False\<rparr>) fresh_state))
       = WaitingStatus ''Waiting for container to be ready''
   \<and> calls (snd (on_ausf_pebble_ready (harness_env\<lparr>can_connect := False\<rparr>) fresh_state))
       = [Get_relation ''nrf'', Can_connect, Defer]
   \<and> count_list (calls (snd (on_ausf_pebble_ready (harness_env\<lparr>can_connect := False\<rparr>)
         fresh_state)))
         Defer = 1"
proof -
  have rel: "get_relation (harness_env\<lparr>can_connect := False\<rparr>) ''nrf'' = Inr (Some 0)"
    and conn: "\<not> can_connect (harness_env\<lparr>can_connect := False\<rparr>)"
    by (simp_all add: harness_env_def)
  from container_unreachable_deferred [OF rel conn, of fresh_state] rel conn
  show ?thesis
    by (simp add: fresh_state_def)
qed

text \<open>
  C3. Whenever the relation exists, the container is connectable and the requirer library
  resolves no URL, the handler returns normally with status Waiting, reason
  \<^verbatim>\<open>Waiting for NRF data to be available\<close>. The calls are the relation lookup, the
  connectivity check and the URL query: no template is rendered, no file is pushed, no
  layer is added, nothing is replanned and the event is not deferred.
\<close>

theorem nrf_data_missing_waiting:
  assumes "get_relation e ''nrf'' = Inr (Some r)" and "can_connect e" and "get_nrf_url e = None"
  shows "on_ausf_pebble_ready e s =
     (Inr (), s\<lparr>status := WaitingStatus ''Waiting for NRF data to be available'',
                calls := calls s @ [Get_relation ''nrf'', Can_connect, Get_nrf_url]\<rparr>)"
  using assms by (simp add: handler_defs truthy_def)

theorem nrf_data_missing_waiting_witness:
  "get_relation (harness_env\<lparr>get_nrf_url := None\<rparr>) ''nrf'' = Inr (Some 0)
   \<and> can_connect (harness_env\<lparr>get_nrf_url := None\<rparr>)
   \<and> get_nrf_url (harness_env\<lparr>get_nrf_url := None\<rparr>) = None
   \<and> fst (on_ausf_pebble_ready (harness_env\<lparr>get_nrf_url := None\<rparr>) fresh_state) = Inr ()
   \<and> status (snd (on_ausf_pebble_ready (harness_env\<lparr>get_nrf_url := None\<rparr>) fresh_state))
       = WaitingStatus ''Waiting for NRF data to be available''
   \<and> files (snd (on_ausf_pebble_ready (harness_env\<lparr>get_nrf_url := None\<rparr>) fresh_state))
       = Map.empty
   \<and> calls (snd (on_ausf_pebble_ready (harness_env\<lparr>get_nrf_url := None\<rparr>) fresh_state))
       = [Get_relation ''nrf'', Can_connect, Get_nrf_url]"
proof -
  have rel: "get_relation (harness_env\<lparr>get_nrf_url := None\<rparr>) ''nrf'' = Inr (Some 0)"
    and conn: "can_connect (harness_env\<lparr>get_nrf_url := None\<rparr>)"
    and url: "get_nrf_url (harness_env\<lparr>get_nrf_url := None\<rparr>) = None"
    by (simp_all add: harness_env_def)
  from nrf_data_missing_waiting [OF rel conn url, of fresh_state] rel conn url
  show ?thesis
    by (simp add: fresh_state_def)
qed

text \<open>
  C10. The data check is the truth value of the resolved URL, so a published empty
  string counts as no URL: with the relation present and the container connectable, an
  empty \<^verbatim>\<open>url\<close> ends the pass exactly as an absent one does, with status Waiting,
  reason \<^verbatim>\<open>Waiting for NRF data to be available\<close>, no write, no layer and no
  deferral.
\<close>

theorem empty_url_is_no_url:
  assumes "get_relation e ''nrf'' = Inr (Some r)" and "can_connect e" and "get_nrf_url e = Some []"
  shows "on_ausf_pebble_ready e s =
      (Inr (), s\<lparr>status := WaitingStatus ''Waiting for NRF data to be available'',
                 calls := calls s @ [Get_relation ''nrf'', Can_connect, Get_nrf_url]\<rparr>)
    \<and> on_ausf_pebble_ready e s = on_ausf_pebble_ready (e\<lparr>get_nrf_url := None\<rparr>) s
    \<and> fst (nrf_data_is_available e s) = truthy (get_nrf_url e)"
  using assms by (simp add: handler_defs truthy_def)

theorem empty_url_is_no_url_witness:
  "get_relation (harness_env\<lparr>get_nrf_url := Some []\<rparr>) ''nrf'' = Inr (Some 0)
   \<and> can_connect (harness_env\<lparr>get_nrf_url := Some []\<rparr>)
   \<and> get_nrf_url (harness_env\<lparr>get_nrf_url := Some []\<rparr>) = Some []
   \<and> fst (on_ausf_pebble_ready (harness_env\<lparr>get_nrf_url := Some []\<rparr>) fresh_state) = Inr ()
   \<and> status (snd (on_ausf_pebble_ready (harness_env\<lparr>get_nrf_url := Some []\<rparr>) fresh_state))
       = WaitingStatus ''Waiting for NRF data to be available''
   \<and> files (snd (on_ausf_pebble_ready (harness_env\<lparr>get_nrf_url := Some []\<rparr>) fresh_state))
       = Map.empty
   \<and> calls (snd (on_ausf_pebble_ready (harness_env\<lparr>get_nrf_url := Some []\<rparr>) fresh_state))
       = [Get_relation ''nrf'', Can_connect, Get_nrf_url]"
proof -
  let ?e = "harness_env\<lparr>get_nrf_url := Some []\<rparr>"
  have rel: "get_relation ?e ''nrf'' = Inr (Some 0)"
    and conn: "can_connect ?e"
    and url: "get_nrf_url ?e = Some []"
    by (simp_all add: harness_env_def)
  from empty_url_is_no_url [OF rel conn url, of fresh_state] rel conn url
  show ?thesis
    by (simp add: fresh_state_def)
qed

subsection \<open>The configuration file\<close>

text \<open>
  C5. Whenever the handler reaches the write (relation present, container connectable, a
  non-empty URL resolved, no file at \<^verbatim>\<open>/etc/ausf/ausfcfg.conf\<close>), the content it
  renders and passes to \<^verbatim>\<open>push\<close> for that path is the fixed schema text with the
  resolved URL after \<^verbatim>\<open>nrfUri: \<close> and the host name
  \<^verbatim>\<open><app-name>.<model-name>.svc.cluster.local\<close> after \<^verbatim>\<open>registerIPv4: \<close>; every
  other byte is constant. It is the only content pushed in the pass, and when the push
  succeeds it is the content of the file, whether or not the later address query
  succeeds.
\<close>

theorem config_file_round_trip:
  assumes "get_relation e ''nrf'' = Inr (Some r)" and "can_connect e"
    and "get_nrf_url e = Some url" and "url \<noteq> []"
    and "files s config_file_path = None"
  shows "\<exists>content.
      content =
          ''configuration:\<newline>  groupId: ausfGroup001\<newline>  nrfUri: '' @
          url @
          ''\<newline>  plmnSupportList:\<newline>  - mcc: \"208\"'' @
          ''\<newline>    mnc: \"93\"\<newline>  sbi:'' @
          ''\<newline>    bindingIPv4: 0.0.0.0\<newline>    port: 29509'' @
          ''\<newline>    registerIPv4: '' @
          app_name e @ ''.'' @ model_name e @ ''.svc.cluster.local'' @
          ''\<newline>    scheme: http\<newline>  serviceNameList:'' @
          ''\<newline>  - nausf-auth\<newline>info:'' @
          ''\<newline>  description: AUSF initial local configuration'' @
          ''\<newline>  version: 1.0.0\<newline>logger:\<newline>  AMF:'' @
          ''\<newline>    ReportCaller: false\<newline>    debugLevel: info'' @
          ''\<newline>  AUSF:\<newline>    ReportCaller: false'' @
          ''\<newline>    debugLevel: info\<newline>  Aper:'' @
          ''\<newline>    ReportCaller: false\<newline>    debugLevel: info'' @
          ''\<newline>  CommonConsumerTest:\<newline>    ReportCaller: false'' @
          ''\<newline>    debugLevel: info\<newline>  FSM:'' @
          ''\<newline>    ReportCaller: false\<newline>    debugLevel: info'' @
          ''\<newline>  MongoDBLibrary:\<newline>    ReportCaller: false'' @
          ''\<newline>    debugLevel: info\<newline>  N3IWF:'' @
          ''\<newline>    ReportCaller: false\<newline>    debugLevel: info'' @
          ''\<newline>  NAS:\<newline>    ReportCaller: false'' @
          ''\<newline>    debugLevel: info\<newline>  NGAP:'' @
          ''\<newline>    ReportCaller: false\<newline>    debugLevel: info'' @
          ''\<newline>  NRF:\<newline>    ReportCaller: false'' @
          ''\<newline>    debugLevel: info\<newline>  NamfComm:'' @
          ''\<newline>    ReportCaller: false\<newline>    debugLevel: info'' @
          ''\<newline>  NamfEventExposure:\<newline>    ReportCaller: false'' @
          ''\<newline>    debugLevel: info\<newline>  NsmfPDUSession:'' @
          ''\<newline>    ReportCaller: false\<newline>    debugLevel: info'' @
          ''\<newline>  NudrDataRepository:\<newline>    ReportCaller: false'' @
          ''\<newline>    debugLevel: info\<newline>  OpenApi:'' @
          ''\<newline>    ReportCaller: false\<newline>    debugLevel: info'' @
          ''\<newline>  PCF:\<newline>    ReportCaller: false'' @
          ''\<newline>    debugLevel: info\<newline>  PFCP:'' @
          ''\<newline>    ReportCaller: false\<newline>    debugLevel: info'' @
          ''\<newline>  PathUtil:\<newline>    ReportCaller: false'' @
          ''\<newline>    debugLevel: info\<newline>  SMF:'' @
          ''\<newline>    ReportCaller: false\<newline>    debugLevel: info'' @
          ''\<newline>  UDM:\<newline>    ReportCaller: false'' @
          ''\<newline>    debugLevel: info\<newline>  UDR:'' @
          ''\<newline>    ReportCaller: false\<newline>    debugLevel: info'' @
          ''\<newline>  WEBUI:\<newline>    ReportCaller: false'' @
          ''\<newline>    debugLevel: info''
    \<and> filter config_write_call (calls (snd (on_ausf_pebble_ready e s))) =
        filter config_write_call (calls s) @
          [Get_template ''ausfcfg.conf.j2'', Push ''/etc/ausf/ausfcfg.conf'' content]
    \<and> (push_outcome e = Inr () \<longrightarrow>
          files (snd (on_ausf_pebble_ready e s)) ''/etc/ausf/ausfcfg.conf'' = Some content)"
  using assms
  by (cases "unit_get_private_address e"; cases "push_outcome e")
     (simp_all add: handler_defs truthy_def path_defs render_def
        ausfcfg_conf_j2_def py_str_def ausf_hostname_def logger_names_def logger_entry_def)

theorem config_file_round_trip_witness:
  "get_relation harness_env ''nrf'' = Inr (Some 0) \<and> can_connect harness_env
   \<and> get_nrf_url harness_env = Some ''http://1.1.1.1''
   \<and> files fresh_state config_file_path = None
   \<and> push_outcome harness_env = Inr ()
   \<and> files (snd (on_ausf_pebble_ready harness_env fresh_state)) ''/etc/ausf/ausfcfg.conf'' =
     Some (''configuration:\<newline>  groupId: ausfGroup001'' @
           ''\<newline>  nrfUri: http://1.1.1.1\<newline>  plmnSupportList:'' @
           ''\<newline>  - mcc: \"208\"\<newline>    mnc: \"93\"\<newline>  sbi:'' @
           ''\<newline>    bindingIPv4: 0.0.0.0\<newline>    port: 29509'' @
           ''\<newline>    registerIPv4: ausf-operator.whatever.svc.cluster.local'' @
           ''\<newline>    scheme: http\<newline>  serviceNameList:'' @
           ''\<newline>  - nausf-auth\<newline>info:'' @
           ''\<newline>  description: AUSF initial local configuration'' @
           ''\<newline>  version: 1.0.0\<newline>logger:\<newline>  AMF:'' @
           ''\<newline>    ReportCaller: false\<newline>    debugLevel: info'' @
           ''\<newline>  AUSF:\<newline>    ReportCaller: false'' @
           ''\<newline>    debugLevel: info\<newline>  Aper:'' @
           ''\<newline>    ReportCaller: false\<newline>    debugLevel: info'' @
           ''\<newline>  CommonConsumerTest:\<newline>    ReportCaller: false'' @
           ''\<newline>    debugLevel: info\<newline>  FSM:'' @
           ''\<newline>    ReportCaller: false\<newline>    debugLevel: info'' @
           ''\<newline>  MongoDBLibrary:\<newline>    ReportCaller: false'' @
           ''\<newline>    debugLevel: info\<newline>  N3IWF:'' @
           ''\<newline>    ReportCaller: false\<newline>    debugLevel: info'' @
           ''\<newline>  NAS:\<newline>    ReportCaller: false'' @
           ''\<newline>    debugLevel: info\<newline>  NGAP:'' @
           ''\<newline>    ReportCaller: false\<newline>    debugLevel: info'' @
           ''\<newline>  NRF:\<newline>    ReportCaller: false'' @
           ''\<newline>    debugLevel: info\<newline>  NamfComm:'' @
           ''\<newline>    ReportCaller: false\<newline>    debugLevel: info'' @
           ''\<newline>  NamfEventExposure:\<newline>    ReportCaller: false'' @
           ''\<newline>    debugLevel: info\<newline>  NsmfPDUSession:'' @
           ''\<newline>    ReportCaller: false\<newline>    debugLevel: info'' @
           ''\<newline>  NudrDataRepository:\<newline>    ReportCaller: false'' @
           ''\<newline>    debugLevel: info\<newline>  OpenApi:'' @
           ''\<newline>    ReportCaller: false\<newline>    debugLevel: info'' @
           ''\<newline>  PCF:\<newline>    ReportCaller: false'' @
           ''\<newline>    debugLevel: info\<newline>  PFCP:'' @
           ''\<newline>    ReportCaller: false\<newline>    debugLevel: info'' @
           ''\<newline>  PathUtil:\<newline>    ReportCaller: false'' @
           ''\<newline>    debugLevel: info\<newline>  SMF:'' @
           ''\<newline>    ReportCaller: false\<newline>    debugLevel: info'' @
           ''\<newline>  UDM:\<newline>    ReportCaller: false'' @
           ''\<newline>    debugLevel: info\<newline>  UDR:'' @
           ''\<newline>    ReportCaller: false\<newline>    debugLevel: info'' @
           ''\<newline>  WEBUI:\<newline>    ReportCaller: false'' @
           ''\<newline>    debugLevel: info'')"
proof -
  have rel: "get_relation harness_env ''nrf'' = Inr (Some 0)"
    and conn: "can_connect harness_env"
    and url: "get_nrf_url harness_env = Some ''http://1.1.1.1''"
    and nonempty: "''http://1.1.1.1'' \<noteq> []"
    and absent: "files fresh_state config_file_path = None"
    and pushed: "push_outcome harness_env = Inr ()"
    by (simp_all add: example_defs)
  from config_file_round_trip [OF rel conn url nonempty absent] rel conn url absent pushed
  show ?thesis
    by (auto simp add: harness_env_def)
qed

subsection \<open>The process layer\<close>

text \<open>
  C4, as stated, at a pass it does not cover. The relation exists, the container is
  connectable, a URL is resolved and the file is present, but \<^verbatim>\<open>unit-get\<close> fails:
  the handler makes the five calls below and is left by the exception, so no layer is
  added, nothing is replanned and the status stays what it was, not Active.
\<close>

theorem config_present_layer_not_applied_counterexample:
  "get_relation (harness_env\<lparr>unit_get_private_address := Inl CalledProcessError\<rparr>) ''nrf'' = Inr (Some 0)
   \<and> can_connect (harness_env\<lparr>unit_get_private_address := Inl CalledProcessError\<rparr>)
   \<and> truthy (get_nrf_url (harness_env\<lparr>unit_get_private_address := Inl CalledProcessError\<rparr>))
   \<and> files written_state config_file_path = Some ''nrfUri: http://9.9.9.9''
   \<and> fst (on_ausf_pebble_ready (harness_env\<lparr>unit_get_private_address := Inl CalledProcessError\<rparr>) written_state) = Inl CalledProcessError
   \<and> status (snd (on_ausf_pebble_ready (harness_env\<lparr>unit_get_private_address := Inl CalledProcessError\<rparr>) written_state)) = MaintenanceStatus []
   \<and> calls (snd (on_ausf_pebble_ready (harness_env\<lparr>unit_get_private_address := Inl CalledProcessError\<rparr>) written_state))
       = [Get_relation ''nrf'', Can_connect, Get_nrf_url, Exists ''/etc/ausf/ausfcfg.conf'',
          Check_output [''unit-get'', ''private-address'']]"
  by (simp add: handler_defs path_defs example_defs truthy_def)

text \<open>
  C4, amended. Whenever the relation exists, the container is connectable, a non-empty
  URL is resolved and the file is present, the handler leaves the files as they are and
  makes no template or push call, whatever the present content and the resolved URL are.
  If moreover \<^verbatim>\<open>unit-get\<close> answers with an address, the handler adds the layer
  \<^verbatim>\<open>ausf\<close> with \<^verbatim>\<open>combine=True\<close>, replans, and returns with status Active.
\<close>

theorem config_present_not_rewritten:
  assumes "get_relation e ''nrf'' = Inr (Some r)" and "can_connect e" and "truthy (get_nrf_url e)"
    and "files s config_file_path = Some old"
  shows "files (snd (on_ausf_pebble_ready e s)) = files s
    \<and> filter config_write_call (calls (snd (on_ausf_pebble_ready e s)))
        = filter config_write_call (calls s)
    \<and> (unit_get_private_address e = Inr ip \<longrightarrow>
         (\<exists>l. fst (pebble_layer e s) = Inr l
            \<and> on_ausf_pebble_ready e s =
                (Inr (),
                 s\<lparr>status := ActiveStatus [],
                   calls := calls s @
                     [Get_relation ''nrf'', Can_connect, Get_nrf_url,
                      Exists ''/etc/ausf/ausfcfg.conf'',
                      Check_output [''unit-get'', ''private-address''],
                      Add_layer ''ausf'' l True, Replan]\<rparr>)))"
  using assms
  by (cases "unit_get_private_address e") (simp_all add: handler_defs path_defs)

theorem config_present_not_rewritten_witness:
  "get_relation harness_env ''nrf'' = Inr (Some 0) \<and> can_connect harness_env
   \<and> truthy (get_nrf_url harness_env)
   \<and> files written_state config_file_path = Some ''nrfUri: http://9.9.9.9''
   \<and> files (snd (on_ausf_pebble_ready harness_env written_state)) = files written_state
   \<and> status (snd (on_ausf_pebble_ready harness_env written_state)) = ActiveStatus []
   \<and> filter config_write_call (calls (snd (on_ausf_pebble_ready harness_env written_state)))
       = []
   \<and> filter plan_call (calls (snd (on_ausf_pebble_ready harness_env written_state)))
       = [Add_layer ''ausf''
            \<lparr>summary = ''ausf layer'',
             description = ''pebble config layer for ausf'',
             services =
               [(''ausf'',
                 \<lparr>override = ''replace'', startup = ''enabled'',
                  command = ''/free5gc/ausf/ausf --ausfcfg /etc/ausf/ausfcfg.conf'',
                  environment =
                    [(''GRPC_GO_LOG_VERBOSITY_LEVEL'', ''99''),
                     (''GRPC_GO_LOG_SEVERITY_LEVEL'', ''info''),
                     (''GRPC_TRACE'', ''all''),
                     (''GRPC_VERBOSITY'', ''debug''),
                     (''POD_IP'', ''1.1.1.1''),
                     (''MANAGED_BY_CONFIG_POD'', ''true'')]\<rparr>)]\<rparr> True, Replan]"
proof -
  have rel: "get_relation harness_env ''nrf'' = Inr (Some 0)"
    and conn: "can_connect harness_env"
    and url: "truthy (get_nrf_url harness_env)"
    and ip: "unit_get_private_address harness_env = Inr ''1.1.1.1''"
    and old: "files written_state config_file_path = Some ''nrfUri: http://9.9.9.9''"
    by (simp_all add: example_defs truthy_def path_defs)
  from config_present_not_rewritten [OF rel conn url old, of "''1.1.1.1''"] rel conn url ip old
  show ?thesis
    by (auto simp add: pebble_layer_def environment_variables_def pod_ip_def path_defs
          written_state_def)
qed

text \<open>
  C6, as stated, where it fails. First, a pass it does not cover: the relation exists,
  the container is connectable, a URL is resolved and the file is written in this pass,
  but the address that \<^verbatim>\<open>unit-get\<close> prints does not parse; the exception leaves the
  handler while the layer is being built, so the layer is not added and nothing is
  replanned. Second, the command: in the pass that does add the layer, the service is not
  declared with the flag \<^verbatim>\<open>--config\<close>.
\<close>

theorem layer_unconditional_counterexample:
  "get_relation (harness_env\<lparr>unit_get_private_address := Inl AddressValueError\<rparr>) ''nrf'' = Inr (Some 0)
   \<and> can_connect (harness_env\<lparr>unit_get_private_address := Inl AddressValueError\<rparr>)
   \<and> truthy (get_nrf_url (harness_env\<lparr>unit_get_private_address := Inl AddressValueError\<rparr>))
   \<and> fst (on_ausf_pebble_ready (harness_env\<lparr>unit_get_private_address := Inl AddressValueError\<rparr>) fresh_state) = Inl AddressValueError
   \<and> filter config_write_call (calls (snd (on_ausf_pebble_ready (harness_env\<lparr>unit_get_private_address := Inl AddressValueError\<rparr>) fresh_state)))
       \<noteq> []
   \<and> filter plan_call (calls (snd (on_ausf_pebble_ready (harness_env\<lparr>unit_get_private_address := Inl AddressValueError\<rparr>) fresh_state))) = []
   \<and> fst (on_ausf_pebble_ready harness_env fresh_state) = Inr ()
   \<and> filter plan_call (calls (snd (on_ausf_pebble_ready harness_env fresh_state)))
       \<noteq> [Add_layer ''ausf''
            \<lparr>summary = ''ausf layer'',
             description = ''pebble config layer for ausf'',
             services =
               [(''ausf'',
                 \<lparr>override = ''replace'', startup = ''enabled'',
                  command = ''/free5gc/ausf/ausf --config /etc/ausf/ausfcfg.conf'',
                  environment =
                    [(''GRPC_GO_LOG_VERBOSITY_LEVEL'', ''99''),
                     (''GRPC_GO_LOG_SEVERITY_LEVEL'', ''info''),
                     (''GRPC_TRACE'', ''all''),
                     (''GRPC_VERBOSITY'', ''debug''),
                     (''POD_IP'', ''1.1.1.1''),
                     (''MANAGED_BY_CONFIG_POD'', ''true'')]\<rparr>)]\<rparr> True, Replan]"
  by (simp add: handler_defs path_defs example_defs truthy_def)

text \<open>
  C6, amended. Once checks 1 to 4 pass (the relation exists, the container is
  connectable, a non-empty URL is resolved, and the file is present or its push
  succeeds) and \<^verbatim>\<open>unit-get\<close> answers with an address, the handler returns normally and
  its last two calls are \<^verbatim>\<open>add_layer("ausf", layer, combine=True)\<close> and
  \<^verbatim>\<open>replan()\<close>, the call that makes the process set match the declared layer, with no
  other call on the plan before them. The layer has the single service \<^verbatim>\<open>ausf\<close> with
  override \<^verbatim>\<open>replace\<close>, startup \<^verbatim>\<open>enabled\<close>, command
  \<^verbatim>\<open>/free5gc/ausf/ausf --ausfcfg /etc/ausf/ausfcfg.conf\<close> and the environment mapping.
\<close>

theorem layer_applied_then_replan:
  assumes "get_relation e ''nrf'' = Inr (Some r)" and "can_connect e"
    and "truthy (get_nrf_url e)"
    and "files s config_file_path \<noteq> None \<or> push_outcome e = Inr ()"
    and "unit_get_private_address e = Inr ip"
  shows "fst (on_ausf_pebble_ready e s) = Inr ()
    \<and> (\<exists>cs. calls (snd (on_ausf_pebble_ready e s)) =
          calls s @ cs @
            [Add_layer ''ausf''
            \<lparr>summary = ''ausf layer'',
             description = ''pebble config layer for ausf'',
             services =
               [(''ausf'',
                 \<lparr>override = ''replace'', startup = ''enabled'',
                  command = ''/free5gc/ausf/ausf --ausfcfg /etc/ausf/ausfcfg.conf'',
                  environment =
                    [(''GRPC_GO_LOG_VERBOSITY_LEVEL'', ''99''),
                     (''GRPC_GO_LOG_SEVERITY_LEVEL'', ''info''),
                     (''GRPC_TRACE'', ''all''),
                     (''GRPC_VERBOSITY'', ''debug''),
                     (''POD_IP'', ip),
                     (''MANAGED_BY_CONFIG_POD'', ''true'')]\<rparr>)]\<rparr> True,
             Replan]
          \<and> filter plan_call cs = [])"
  using assms
  by (cases "files s config_file_path"; cases "push_outcome e")
     (simp_all add: handler_defs path_defs)

theorem layer_applied_then_replan_witness:
  "get_relation harness_env ''nrf'' = Inr (Some 0) \<and> can_connect harness_env
   \<and> truthy (get_nrf_url harness_env)
   \<and> files fresh_state config_file_path = None
   \<and> push_outcome harness_env = Inr ()
   \<and> unit_get_private_address harness_env = Inr ''1.1.1.1''
   \<and> fst (on_ausf_pebble_ready harness_env fresh_state) = Inr ()
   \<and> filter plan_call (calls (snd (on_ausf_pebble_ready harness_env fresh_state)))
       = [Add_layer ''ausf''
            \<lparr>summary = ''ausf layer'',
             description = ''pebble config layer for ausf'',
             services =
               [(''ausf'',
                 \<lparr>override = ''replace'', startup = ''enabled'',
                  command = ''/free5gc/ausf/ausf --ausfcfg /etc/ausf/ausfcfg.conf'',
                  environment =
                    [(''GRPC_GO_LOG_VERBOSITY_LEVEL'', ''99''),
                     (''GRPC_GO_LOG_SEVERITY_LEVEL'', ''info''),
                     (''GRPC_TRACE'', ''all''),
                     (''GRPC_VERBOSITY'', ''debug''),
                     (''POD_IP'', ''1.1.1.1''),
                     (''MANAGED_BY_CONFIG_POD'', ''true'')]\<rparr>)]\<rparr> True, Replan]"
proof -
  have rel: "get_relation harness_env ''nrf'' = Inr (Some 0)"
    and conn: "can_connect harness_env"
    and url: "truthy (get_nrf_url harness_env)"
    and absent: "files fresh_state config_file_path = None"
    and pushed: "push_outcome harness_env = Inr ()"
    and ip: "unit_get_private_address harness_env = Inr ''1.1.1.1''"
    by (simp_all add: example_defs truthy_def)
  from pushed
  have step4: "files fresh_state config_file_path \<noteq> None \<or> push_outcome harness_env = Inr ()"
    by simp
  from layer_applied_then_replan [OF rel conn url step4 ip] rel conn url absent pushed ip
  show ?thesis
    by (auto simp add: fresh_state_def)
qed

text \<open>
  C7. When \<^verbatim>\<open>unit-get\<close> answers with an address, the layer the charm builds has the one
  service \<^verbatim>\<open>ausf\<close>, started by
  \<^verbatim>\<open>/free5gc/ausf/ausf --ausfcfg /etc/ausf/ausfcfg.conf\<close>, and its environment has
  exactly six keys: the four gRPC log settings and \<^verbatim>\<open>MANAGED_BY_CONFIG_POD = true\<close>,
  all constant, and \<^verbatim>\<open>POD_IP\<close>, the address; the address is obtained by the one call
  of \<^verbatim>\<open>unit-get private-address\<close>.
\<close>

theorem pebble_layer_fixed_except_pod_ip:
  assumes "unit_get_private_address e = Inr ip"
  shows "\<exists>l svc.
      pebble_layer e s = (Inr l, called (Check_output [''unit-get'', ''private-address'']) s)
    \<and> services l = [(''ausf'', svc)]
    \<and> startup svc = ''enabled''
    \<and> command svc = ''/free5gc/ausf/ausf --ausfcfg /etc/ausf/ausfcfg.conf''
    \<and> map_of (environment svc) =
        [''GRPC_GO_LOG_VERBOSITY_LEVEL'' \<mapsto> ''99'',
         ''GRPC_GO_LOG_SEVERITY_LEVEL'' \<mapsto> ''info'',
         ''GRPC_TRACE'' \<mapsto> ''all'',
         ''GRPC_VERBOSITY'' \<mapsto> ''debug'',
         ''MANAGED_BY_CONFIG_POD'' \<mapsto> ''true'',
         ''POD_IP'' \<mapsto> ip]
    \<and> distinct (map fst (environment svc))
    \<and> set (map fst (environment svc)) =
        {''GRPC_GO_LOG_VERBOSITY_LEVEL'', ''GRPC_GO_LOG_SEVERITY_LEVEL'', ''GRPC_TRACE'',
         ''GRPC_VERBOSITY'', ''MANAGED_BY_CONFIG_POD'', ''POD_IP''}"
  using assms
  by (auto simp add: pebble_layer_def environment_variables_def pod_ip_def path_defs)

theorem pebble_layer_fixed_except_pod_ip_witness:
  "unit_get_private_address harness_env = Inr ''1.1.1.1''
   \<and> fst (pebble_layer harness_env fresh_state) =
       Inr \<lparr>summary = ''ausf layer'',
             description = ''pebble config layer for ausf'',
             services =
               [(''ausf'',
                 \<lparr>override = ''replace'', startup = ''enabled'',
                  command = ''/free5gc/ausf/ausf --ausfcfg /etc/ausf/ausfcfg.conf'',
                  environment =
                    [(''GRPC_GO_LOG_VERBOSITY_LEVEL'', ''99''),
                     (''GRPC_GO_LOG_SEVERITY_LEVEL'', ''info''),
                     (''GRPC_TRACE'', ''all''),
                     (''GRPC_VERBOSITY'', ''debug''),
                     (''POD_IP'', ''1.1.1.1''),
                     (''MANAGED_BY_CONFIG_POD'', ''true'')]\<rparr>)]\<rparr>"
proof -
  have ip: "unit_get_private_address harness_env = Inr ''1.1.1.1''"
    by (simp add: harness_env_def)
  from pebble_layer_fixed_except_pod_ip [OF ip, of fresh_state] ip
  show ?thesis
    by (auto simp add: pebble_layer_def environment_variables_def pod_ip_def path_defs)
qed

subsection \<open>A failing address query\<close>

text \<open>
  C9. Whenever the relation exists, the container is connectable, a non-empty URL is
  resolved, the pass reaches the address query (the file is present, or its push
  succeeds) and the query fails, the handler is left by that exception: its result is the
  error, the status is not assigned, no layer is added and nothing is replanned. A file
  pushed earlier in the pass stays: if the file was absent it is now the rendered
  content, and if it was present the files are unchanged.
\<close>

theorem pod_ip_failure_aborts:
  assumes "get_relation e ''nrf'' = Inr (Some r)" and "can_connect e"
    and "truthy (get_nrf_url e)"
    and "files s config_file_path \<noteq> None \<or> push_outcome e = Inr ()"
    and "unit_get_private_address e = Inl err"
  shows "fst (on_ausf_pebble_ready e s) = Inl err
    \<and> status (snd (on_ausf_pebble_ready e s)) = status s
    \<and> filter plan_call (calls (snd (on_ausf_pebble_ready e s))) = filter plan_call (calls s)
    \<and> (files s config_file_path \<noteq> None \<longrightarrow>
          files (snd (on_ausf_pebble_ready e s)) = files s
          \<and> calls (snd (on_ausf_pebble_ready e s)) =
              calls s @
                [Get_relation ''nrf'', Can_connect, Get_nrf_url, Exists config_file_path,
                 Check_output [''unit-get'', ''private-address'']])
    \<and> (files s config_file_path = None \<longrightarrow>
          files (snd (on_ausf_pebble_ready e s)) =
            (files s)(config_file_path \<mapsto>
               render ausfcfg_conf_j2
                 [(''nrf_url'', get_nrf_url e), (''ausf_url'', Some (ausf_hostname e))])
          \<and> calls (snd (on_ausf_pebble_ready e s)) =
              calls s @
                [Get_relation ''nrf'', Can_connect, Get_nrf_url, Exists config_file_path,
                 Get_nrf_url, Get_template ''ausfcfg.conf.j2'',
                 Push config_file_path
                   (render ausfcfg_conf_j2
                      [(''nrf_url'', get_nrf_url e), (''ausf_url'', Some (ausf_hostname e))]),
                 Check_output [''unit-get'', ''private-address'']])"
  using assms
  by (cases "files s config_file_path"; cases "push_outcome e")
     (simp_all add: handler_defs)

theorem pod_ip_failure_aborts_witness:
  "get_relation (harness_env\<lparr>unit_get_private_address := Inl FileNotFoundError\<rparr>) ''nrf'' = Inr (Some 0)
   \<and> can_connect (harness_env\<lparr>unit_get_private_address := Inl FileNotFoundError\<rparr>)
   \<and> truthy (get_nrf_url (harness_env\<lparr>unit_get_private_address := Inl FileNotFoundError\<rparr>))
   \<and> push_outcome (harness_env\<lparr>unit_get_private_address := Inl FileNotFoundError\<rparr>) = Inr ()
   \<and> unit_get_private_address (harness_env\<lparr>unit_get_private_address := Inl FileNotFoundError\<rparr>) = Inl FileNotFoundError
   \<and> files fresh_state config_file_path = None
   \<and> fst (on_ausf_pebble_ready (harness_env\<lparr>unit_get_private_address := Inl FileNotFoundError\<rparr>) fresh_state) = Inl FileNotFoundError
   \<and> status (snd (on_ausf_pebble_ready (harness_env\<lparr>unit_get_private_address := Inl FileNotFoundError\<rparr>) fresh_state)) = MaintenanceStatus []
   \<and> filter plan_call (calls (snd (on_ausf_pebble_ready (harness_env\<lparr>unit_get_private_address := Inl FileNotFoundError\<rparr>) fresh_state))) = []
   \<and> files (snd (on_ausf_pebble_ready (harness_env\<lparr>unit_get_private_address := Inl FileNotFoundError\<rparr>) fresh_state)) config_file_path \<noteq> None"
proof -
  let ?e = "harness_env\<lparr>unit_get_private_address := Inl FileNotFoundError\<rparr>"
  have rel: "get_relation ?e ''nrf'' = Inr (Some 0)"
    and conn: "can_connect ?e"
    and url: "truthy (get_nrf_url ?e)"
    and pushed: "push_outcome ?e = Inr ()"
    and ip: "unit_get_private_address ?e = Inl FileNotFoundError"
    and absent: "files fresh_state config_file_path = None"
    by (simp_all add: example_defs truthy_def)
  from pushed
  have reached: "files fresh_state config_file_path \<noteq> None \<or> push_outcome ?e = Inr ()"
    by simp
  from pod_ip_failure_aborts [OF rel conn url reached ip] rel conn url pushed ip absent
  show ?thesis
    by (simp add: fresh_state_def)
qed

subsection \<open>The status as a function of what the pass observes\<close>

text \<open>
  C8, as stated, at two passes it does not cover. Both passes see the same relation, the
  same connectivity, the same URL and the same (empty) container files and start from the
  same status; they differ only in the answer of \<^verbatim>\<open>unit-get\<close>. The first ends Active;
  the second is left by the exception with the earlier Maintenance status still in place,
  which is none of the four states.
\<close>

theorem status_determinism_counterexample:
  "nrf_relation_exists harness_env = nrf_relation_exists (harness_env\<lparr>unit_get_private_address := Inl CalledProcessError\<rparr>)
   \<and> can_connect harness_env = can_connect (harness_env\<lparr>unit_get_private_address := Inl CalledProcessError\<rparr>)
   \<and> truthy (get_nrf_url harness_env) = truthy (get_nrf_url (harness_env\<lparr>unit_get_private_address := Inl CalledProcessError\<rparr>))
   \<and> status (snd (on_ausf_pebble_ready harness_env fresh_state)) = ActiveStatus []
   \<and> status (snd (on_ausf_pebble_ready (harness_env\<lparr>unit_get_private_address := Inl CalledProcessError\<rparr>) fresh_state)) = MaintenanceStatus []"
  by (simp add: handler_defs path_defs example_defs truthy_def nrf_relation_exists_def)

text \<open>
  C8, amended. For every pass that returns normally, the status it leaves is the value of
  the specification's table at what the pass observes: one of Blocked(relation),
  Waiting(container), Waiting(dependency) and Active, whatever the status was before. So
  two passes that return normally and observe the same relation existence, connectivity,
  URL availability and file existence leave the same status. A pass left by an
  exception assigns no status: the one it found stays.
\<close>

theorem status_function_of_observations:
  "(fst (on_ausf_pebble_ready e s) = Inr () \<longrightarrow>
      status (snd (on_ausf_pebble_ready e s)) =
        spec_status (nrf_relation_exists e) (can_connect e) (truthy (get_nrf_url e))
      \<and> status (snd (on_ausf_pebble_ready e s)) \<in>
          {BlockedStatus ''Waiting for NRF relation to be created'',
           WaitingStatus ''Waiting for container to be ready'',
           WaitingStatus ''Waiting for NRF data to be available'',
           ActiveStatus []})
   \<and> (fst (on_ausf_pebble_ready e s) = Inr () \<and> fst (on_ausf_pebble_ready e' s') = Inr ()
        \<and> nrf_relation_exists e = nrf_relation_exists e'
        \<and> can_connect e = can_connect e'
        \<and> truthy (get_nrf_url e) = truthy (get_nrf_url e')
        \<and> (files s config_file_path = None) = (files s' config_file_path = None) \<longrightarrow>
        status (snd (on_ausf_pebble_ready e s)) = status (snd (on_ausf_pebble_ready e' s')))
   \<and> (fst (on_ausf_pebble_ready e s) = Inl err \<longrightarrow>
        status (snd (on_ausf_pebble_ready e s)) = status s)"
proof -
  have table: "status (snd (on_ausf_pebble_ready x t)) =
      spec_status (nrf_relation_exists x) (can_connect x) (truthy (get_nrf_url x))"
    if "fst (on_ausf_pebble_ready x t) = Inr ()" for x t
    using that
    by (cases "get_relation x ''nrf''"; cases "push_outcome x";
        cases "unit_get_private_address x")
       (auto simp add: handler_defs spec_status_def nrf_relation_exists_def
          split: if_splits)
  have kept: "status (snd (on_ausf_pebble_ready e s)) = status s"
    if "fst (on_ausf_pebble_ready e s) = Inl err"
    using that
    by (cases "get_relation e ''nrf''"; cases "push_outcome e";
        cases "unit_get_private_address e")
       (auto simp add: handler_defs split: if_splits)
  have four: "spec_status a b c \<in>
          {BlockedStatus ''Waiting for NRF relation to be created'',
           WaitingStatus ''Waiting for container to be ready'',
           WaitingStatus ''Waiting for NRF data to be available'',
           ActiveStatus []}" for a b c
    by (simp add: spec_status_def)
  show ?thesis
  proof (intro conjI impI)
    assume "fst (on_ausf_pebble_ready e s) = Inr ()"
    then show "status (snd (on_ausf_pebble_ready e s)) =
        spec_status (nrf_relation_exists e) (can_connect e) (truthy (get_nrf_url e))"
      by (rule table)
  next
    assume "fst (on_ausf_pebble_ready e s) = Inr ()"
    then have "status (snd (on_ausf_pebble_ready e s)) =
        spec_status (nrf_relation_exists e) (can_connect e) (truthy (get_nrf_url e))"
      by (rule table)
    then show "status (snd (on_ausf_pebble_ready e s)) \<in>
          {BlockedStatus ''Waiting for NRF relation to be created'',
           WaitingStatus ''Waiting for container to be ready'',
           WaitingStatus ''Waiting for NRF data to be available'',
           ActiveStatus []}"
      using four by simp
  next
    assume both: "fst (on_ausf_pebble_ready e s) = Inr ()
        \<and> fst (on_ausf_pebble_ready e' s') = Inr ()
        \<and> nrf_relation_exists e = nrf_relation_exists e'
        \<and> can_connect e = can_connect e'
        \<and> truthy (get_nrf_url e) = truthy (get_nrf_url e')
        \<and> (files s config_file_path = None) = (files s' config_file_path = None)"
    then show "status (snd (on_ausf_pebble_ready e s)) =
        status (snd (on_ausf_pebble_ready e' s'))"
      using table [of e s] table [of e' s'] by simp
  next
    assume "fst (on_ausf_pebble_ready e s) = Inl err"
    then show "status (snd (on_ausf_pebble_ready e s)) = status s"
      by (rule kept)
  qed
qed

theorem status_function_of_observations_witness:
  "fst (on_ausf_pebble_ready harness_env fresh_state) = Inr ()
   \<and> fst (on_ausf_pebble_ready harness_env (fresh_state\<lparr>status := UnknownStatus\<rparr>)) = Inr ()
   \<and> status (snd (on_ausf_pebble_ready harness_env fresh_state)) = ActiveStatus []
   \<and> status (snd (on_ausf_pebble_ready harness_env (fresh_state\<lparr>status := UnknownStatus\<rparr>)))
       = ActiveStatus []
   \<and> fst (on_ausf_pebble_ready (harness_env\<lparr>push_outcome := Inl PathError\<rparr>) fresh_state) = Inl PathError
   \<and> status (snd (on_ausf_pebble_ready (harness_env\<lparr>push_outcome := Inl PathError\<rparr>) fresh_state)) = MaintenanceStatus []"
proof -
  have ok1: "fst (on_ausf_pebble_ready harness_env fresh_state) = Inr ()"
    and ok2: "fst (on_ausf_pebble_ready harness_env (fresh_state\<lparr>status := UnknownStatus\<rparr>))
        = Inr ()"
    and bad: "fst (on_ausf_pebble_ready (harness_env\<lparr>push_outcome := Inl PathError\<rparr>) fresh_state) = Inl PathError"
    by (simp_all add: handler_defs path_defs example_defs truthy_def)
  have obs: "nrf_relation_exists harness_env" "can_connect harness_env"
    "truthy (get_nrf_url harness_env)"
    by (simp_all add: harness_env_def truthy_def nrf_relation_exists_def)
  have old: "status fresh_state = MaintenanceStatus []"
    by (simp add: fresh_state_def)
  from status_function_of_observations
         [of harness_env fresh_state harness_env "fresh_state\<lparr>status := UnknownStatus\<rparr>"]
    ok1 ok2 obs
  have first: "status (snd (on_ausf_pebble_ready harness_env fresh_state)) = ActiveStatus []"
    and same: "status (snd (on_ausf_pebble_ready harness_env fresh_state)) =
      status (snd (on_ausf_pebble_ready harness_env (fresh_state\<lparr>status := UnknownStatus\<rparr>)))"
    by (auto simp add: spec_status_def)
  from status_function_of_observations
         [of "harness_env\<lparr>push_outcome := Inl PathError\<rparr>" fresh_state harness_env fresh_state PathError]
    bad old
  have kept: "status (snd (on_ausf_pebble_ready (harness_env\<lparr>push_outcome := Inl PathError\<rparr>) fresh_state)) = MaintenanceStatus []"
    by simp
  from first same have second:
    "status (snd (on_ausf_pebble_ready harness_env (fresh_state\<lparr>status := UnknownStatus\<rparr>)))
       = ActiveStatus []"
    by simp
  from ok1 ok2 bad first second kept
  show ?thesis
    by simp
qed

end
